theory Spec2Isabelle
  imports Main "HOL-Library.Word" "HOL-Library.Signed_Division"
begin

section \<open>The statement evaluator of the Mython interpreter\<close>

text \<open>
  This theory embeds \<^verbatim>\<open>src/mython/statement.cpp\<close> and \<^verbatim>\<open>statement.h\<close>: the
  \<^verbatim>\<open>Execute\<close> member of each statement node is one HOL function. The nodes are written
  against the abstract interface \<^verbatim>\<open>runtime::Executable\<close> (a child is a
  \<^verbatim>\<open>unique_ptr<Statement>\<close> whose \<^verbatim>\<open>Execute\<close> is virtual), so a child is a
  function here too, and every node is a combinator over its children.

  \<^item> A handle (\<^verbatim>\<open>ObjectHolder\<close>) is empty or the address of an object; objects live in an
    explicit memory, a list indexed by address. \<^verbatim>\<open>ObjectHolder::Own\<close> allocates at the
    next free address, \<^verbatim>\<open>ObjectHolder::Share\<close> points at an object that exists already
    (a literal stored in its node, the instance stored in a \<^verbatim>\<open>NewInstance\<close> node).
  \<^item> A C++ exception is a value: the result of \<^verbatim>\<open>Execute\<close> is \<open>exception + ObjectHolder\<close>,
    together with the closure and the context as the execution left them.
  \<^item> Every node is a total function of its children: its loops run over the list of
    arguments. An execution of a child that does not return has no value here, and the
    statements below are about executions that return or raise.
  \<^item> \<^verbatim>\<open>runtime.h\<close> is not among the sources. What the nodes use from it is either modelled
    from the specification (marked so) or taken as a parameter (\<open>call\<close>, the method
    invocation of an instance; \<open>print_object\<close>, the virtual \<^verbatim>\<open>Object::Print\<close>).
\<close>

subsection \<open>Runtime data\<close>

datatype ObjectHolder = NoneHandle | Handle nat

type_synonym Closure = "string \<rightharpoonup> ObjectHolder"

text \<open>
  Modelled from the spec: \<^verbatim>\<open>runtime::Class\<close> (runtime.h is missing). A class has a name,
  a method table and an optional parent; a method has a name and its formal parameters.
  Method bodies are not stored: invoking a method is the parameter \<open>call\<close> below.
\<close>

datatype Class = Class (GetName: string) (methods: "(string \<times> string list) list")
  (parent: "Class option")

text \<open>
  Modelled from the spec: the value kinds of \<^verbatim>\<open>runtime.h\<close>. A \<^verbatim>\<open>Number\<close> holds a C++
  \<^verbatim>\<open>int\<close> (\<^verbatim>\<open>Div::Execute\<close> stores the quotient in an \<^verbatim>\<open>int\<close>), taken as 32 bits in
  two's complement. A \<^verbatim>\<open>ClassInstance\<close> has its class and its field map.
\<close>

datatype Object =
    Number "32 word"
  | String string
  | Bool bool
  | ClassObject Class
  | ClassInstance Class Closure

record Context =
  output_stream :: string
  heap :: "Object list"

text \<open>
  What ends an execution without a value. The first three are C++ exceptions: a thrown
  \<^verbatim>\<open>ObjectHolder\<close>, a \<^verbatim>\<open>std::runtime_error\<close> with its message, the \<^verbatim>\<open>std::out_of_range\<close> of
  \<^verbatim>\<open>at\<close>. \<open>SIGFPE\<close> is no exception: it is the signal of an integer division whose
  quotient is not an \<^verbatim>\<open>int\<close>. It kills the run, so nothing is returned or thrown, no
  handler sees it, and every node passes it on.
\<close>

datatype exception =
    Thrown_ObjectHolder ObjectHolder
  | runtime_error string
  | out_of_range
  | SIGFPE

type_synonym Outcome = "exception + ObjectHolder"

type_synonym Executable = "Closure \<Rightarrow> Context \<Rightarrow> Outcome \<times> Closure \<times> Context"

text \<open>The method invocation \<^verbatim>\<open>ClassInstance::Call(method, args, context)\<close> on the instance
  at an address: it runs in a closure of its own, so it sees the context only.\<close>

type_synonym Call = "nat \<Rightarrow> string \<Rightarrow> ObjectHolder list \<Rightarrow> Context \<Rightarrow> Outcome \<times> Context"

text \<open>The virtual \<^verbatim>\<open>Object::Print(os, context)\<close> of the object at an address.\<close>

type_synonym Printer = "nat \<Rightarrow> Context \<Rightarrow> exception option \<times> Context"

definition Get :: "Object list \<Rightarrow> ObjectHolder \<Rightarrow> Object option" where
  "Get h obj = (case obj of NoneHandle \<Rightarrow> None
                | Handle a \<Rightarrow> if a < length h then Some (h ! a) else None)"

definition Own :: "Object \<Rightarrow> Context \<Rightarrow> ObjectHolder \<times> Context" where
  "Own v x = (Handle (length (heap x)), x\<lparr>heap := heap x @ [v]\<rparr>)"

definition TryAs_Number :: "Object list \<Rightarrow> ObjectHolder \<Rightarrow> 32 word option" where
  "TryAs_Number h obj = (case Get h obj of Some (Number n) \<Rightarrow> Some n | _ \<Rightarrow> None)"

definition TryAs_ClassInstance :: "Object list \<Rightarrow> ObjectHolder \<Rightarrow> nat option" where
  "TryAs_ClassInstance h obj =
     (case obj of NoneHandle \<Rightarrow> None
      | Handle a \<Rightarrow> (case Get h obj of Some (ClassInstance cls fs) \<Rightarrow> Some a | _ \<Rightarrow> None))"

definition Fields :: "Object list \<Rightarrow> nat \<Rightarrow> Closure" where
  "Fields h a = (case Get h (Handle a) of Some (ClassInstance cls fs) \<Rightarrow> fs | _ \<Rightarrow> Map.empty)"

text \<open>
  Modelled from the spec: \<^verbatim>\<open>runtime::IsTrue\<close> (runtime.h is missing). None is false, a Bool
  is itself, a Number is true when nonzero, a String when nonempty, a class and an instance
  are true.
\<close>

definition IsTrue :: "Object list \<Rightarrow> ObjectHolder \<Rightarrow> bool" where
  "IsTrue h obj =
     (case Get h obj of
        None \<Rightarrow> False
      | Some (Bool b) \<Rightarrow> b
      | Some (Number n) \<Rightarrow> n \<noteq> 0
      | Some (String s) \<Rightarrow> s \<noteq> []
      | Some (ClassObject c) \<Rightarrow> True
      | Some (ClassInstance c fs) \<Rightarrow> True)"

text \<open>
  Modelled from the spec: \<^verbatim>\<open>Class::HasMethod\<close> (runtime.h is missing). The search walks
  from the class up the parent chain and succeeds at a method of that name whose number of
  parameters equals the arity.
\<close>

fun in_method_table :: "(string \<times> string list) list \<Rightarrow> string \<Rightarrow> nat \<Rightarrow> bool" where
  "in_method_table [] name argc = False"
| "in_method_table (m # ms) name argc =
     (if fst m = name \<and> length (snd m) = argc then True else in_method_table ms name argc)"

fun HasMethod :: "Class \<Rightarrow> string \<Rightarrow> nat \<Rightarrow> bool" where
  "HasMethod (Class n ms p) name argc =
     (if in_method_table ms name argc then True
      else (case p of None \<Rightarrow> False | Some c \<Rightarrow> HasMethod c name argc))"

definition ClassInstance_HasMethod :: "Object list \<Rightarrow> nat \<Rightarrow> string \<Rightarrow> nat \<Rightarrow> bool" where
  "ClassInstance_HasMethod h a name argc =
     (case Get h (Handle a) of Some (ClassInstance cls fs) \<Rightarrow> HasMethod cls name argc
      | _ \<Rightarrow> False)"

definition INIT_METHOD :: string where
  "INIT_METHOD = ''__init__''"

subsection \<open>Statement nodes\<close>

text \<open>\<^verbatim>\<open>ValueStatement<T>::Execute\<close> returns \<^verbatim>\<open>ObjectHolder::Share(value_)\<close>: a handle to the
  literal stored in the node. The node is given by the address of that literal.\<close>

definition ValueStatement_Execute :: "nat \<Rightarrow> Executable" where
  "ValueStatement_Execute value_addr closure context = (Inr (Handle value_addr), closure, context)"

definition None_Execute :: Executable where
  "None_Execute closure context = (Inr NoneHandle, closure, context)"

text \<open>
  \<^verbatim>\<open>Assignment::Execute\<close> is \<^verbatim>\<open>closure[var_] = rv_->Execute(closure, context); return closure.at(var_);\<close>.
  The header uses \<^verbatim>\<open>if constexpr\<close>, so the code is C++17 or later, where the right operand
  of an assignment is evaluated before the left one: \<^verbatim>\<open>closure[var_]\<close>, which would insert
  an empty binding, is reached only when \<^verbatim>\<open>rv_\<close> has returned.
\<close>

definition Assignment_Execute :: "string \<Rightarrow> Executable \<Rightarrow> Executable" where
  "Assignment_Execute var rv closure context =
     (case rv closure context of
        (Inl e, closure', context') \<Rightarrow> (Inl e, closure', context')
      | (Inr v, closure', context') \<Rightarrow> (Inr v, closure'(var \<mapsto> v), context'))"

text \<open>The loop of \<^verbatim>\<open>VariableValue::Execute\<close> over \<^verbatim>\<open>dotted_ids_\<close>. When the current object is
  not an instance the body of the \<^verbatim>\<open>if\<close> is skipped and the loop goes on with the same
  object; \<^verbatim>\<open>fields.at\<close> throws \<^verbatim>\<open>std::out_of_range\<close> for a missing field.\<close>

fun VariableValue_loop :: "string list \<Rightarrow> ObjectHolder \<Rightarrow> Object list \<Rightarrow> Outcome" where
  "VariableValue_loop [] current_object h = Inr current_object"
| "VariableValue_loop (d # ds) current_object h =
     (case TryAs_ClassInstance h current_object of
        Some current_ptr \<Rightarrow>
          (case Fields h current_ptr d of
             None \<Rightarrow> Inl out_of_range
           | Some v \<Rightarrow> VariableValue_loop ds v h)
      | None \<Rightarrow> VariableValue_loop ds current_object h)"

definition VariableValue_Execute :: "string \<Rightarrow> string list \<Rightarrow> Executable" where
  "VariableValue_Execute var_name dotted_ids closure context =
     (case closure var_name of
        Some current_object \<Rightarrow>
          (VariableValue_loop dotted_ids current_object (heap context), closure, context)
      | None \<Rightarrow> (Inl (runtime_error ''Failed to VariableValue::Execute!''), closure, context))"

text \<open>The loops of \<^verbatim>\<open>MethodCall::Execute\<close> and \<^verbatim>\<open>NewInstance::Execute\<close> that push the value
  of each argument, in order, onto a vector.\<close>

fun Execute_args :: "Executable list \<Rightarrow> Closure \<Rightarrow> Context
    \<Rightarrow> (exception + ObjectHolder list) \<times> Closure \<times> Context" where
  "Execute_args [] closure context = (Inr [], closure, context)"
| "Execute_args (arg # args) closure context =
     (case arg closure context of
        (Inl e, closure', context') \<Rightarrow> (Inl e, closure', context')
      | (Inr v, closure', context') \<Rightarrow>
          (case Execute_args args closure' context' of
             (Inl e, closure'', context'') \<Rightarrow> (Inl e, closure'', context'')
           | (Inr vs, closure'', context'') \<Rightarrow> (Inr (v # vs), closure'', context'')))"

definition put :: "string \<Rightarrow> Context \<Rightarrow> Context" where
  "put s context = context\<lparr>output_stream := output_stream context @ s\<rparr>"

text \<open>The loop of \<^verbatim>\<open>Print::Execute\<close>, with its flag \<^verbatim>\<open>is_first\<close>: the separator is written,
  then the argument is executed, then its value is printed.\<close>

fun Print_loop :: "Printer \<Rightarrow> bool \<Rightarrow> Executable list \<Rightarrow> Executable" where
  "Print_loop print_object is_first [] closure context =
     (Inr NoneHandle, closure, put [CHR 0x0A] context)"
| "Print_loop print_object is_first (arg # args) closure context =
     (case arg closure (if \<not> is_first then put '' '' context else context) of
        (Inl e, closure', context') \<Rightarrow> (Inl e, closure', context')
      | (Inr NoneHandle, closure', context') \<Rightarrow>
          Print_loop print_object False args closure' (put ''None'' context')
      | (Inr (Handle a), closure', context') \<Rightarrow>
          (case print_object a context' of
             (Some e, context'') \<Rightarrow> (Inl e, closure', context'')
           | (None, context'') \<Rightarrow> Print_loop print_object False args closure' context''))"

definition Print_Execute :: "Printer \<Rightarrow> Executable list \<Rightarrow> Executable" where
  "Print_Execute print_object args closure context =
     Print_loop print_object True args closure context"

definition MethodCall_Execute :: "Call \<Rightarrow> Executable \<Rightarrow> string \<Rightarrow> Executable list \<Rightarrow> Executable" where
  "MethodCall_Execute call object method args closure context =
     (case object closure context of
        (Inl e, closure1, context1) \<Rightarrow> (Inl e, closure1, context1)
      | (Inr current_object, closure1, context1) \<Rightarrow>
          (case TryAs_ClassInstance (heap context1) current_object of
             Some class_ptr \<Rightarrow>
               (case Execute_args args closure1 context1 of
                  (Inl e, closure2, context2) \<Rightarrow> (Inl e, closure2, context2)
                | (Inr method_args, closure2, context2) \<Rightarrow>
                    (case call class_ptr method method_args context2 of
                       (r, context3) \<Rightarrow> (r, closure2, context3)))
           | None \<Rightarrow> (Inr NoneHandle, closure1, context1)))"

text \<open>
  The arithmetic of \<^verbatim>\<open>int\<close>. The product wraps around in two's complement, which is what
  the machine multiplication leaves on overflow. The quotient of \<^verbatim>\<open>/\<close> truncates towards
  zero (\<open>sdiv\<close> on the signed values). The division has no result when the divisor is
  zero or when the quotient is not an \<^verbatim>\<open>int\<close>, which is the least \<^verbatim>\<open>int\<close> divided by \<open>-1\<close>:
  the machine division raises the signal there.
\<close>

definition int_mult :: "32 word \<Rightarrow> 32 word \<Rightarrow> 32 word" where
  "int_mult a b = a * b"

definition int_div :: "32 word \<Rightarrow> 32 word \<Rightarrow> 32 word option" where
  "int_div a b =
     (if b = 0 \<or> (sint a = - (2 ^ 31) \<and> sint b = - 1) then None
      else Some (word_of_int (sint a sdiv sint b)))"

definition Mult_Execute :: "Executable \<Rightarrow> Executable \<Rightarrow> Executable" where
  "Mult_Execute lhs rhs closure context =
     (case lhs closure context of
        (Inl e, closure1, context1) \<Rightarrow> (Inl e, closure1, context1)
      | (Inr l, closure1, context1) \<Rightarrow>
          (case rhs closure1 context1 of
             (Inl e, closure2, context2) \<Rightarrow> (Inl e, closure2, context2)
           | (Inr r, closure2, context2) \<Rightarrow>
               (case (TryAs_Number (heap context2) l, TryAs_Number (heap context2) r) of
                  (Some a, Some b) \<Rightarrow>
                    (case Own (Number (int_mult a b)) context2 of
                       (v, context3) \<Rightarrow> (Inr v, closure2, context3))
                | _ \<Rightarrow> (Inl (runtime_error ''Failed to Mult::Execute ''), closure2, context2))))"

text \<open>The message of the division by zero starts with a Cyrillic letter (two bytes in
  UTF-8) in the source.\<close>

definition Div_by_zero_message :: string where
  "Div_by_zero_message = CHR 0xD0 # CHR 0xA1 # ''annot be divided by 0 ''"

definition Div_Execute :: "Executable \<Rightarrow> Executable \<Rightarrow> Executable" where
  "Div_Execute lhs rhs closure context =
     (case lhs closure context of
        (Inl e, closure1, context1) \<Rightarrow> (Inl e, closure1, context1)
      | (Inr l, closure1, context1) \<Rightarrow>
          (case rhs closure1 context1 of
             (Inl e, closure2, context2) \<Rightarrow> (Inl e, closure2, context2)
           | (Inr r, closure2, context2) \<Rightarrow>
               (case (TryAs_Number (heap context2) l, TryAs_Number (heap context2) r) of
                  (Some a, Some b) \<Rightarrow>
                    (if b \<noteq> 0
                     then (case int_div a b of
                             Some result \<Rightarrow>
                               (case Own (Number result) context2 of
                                  (v, context3) \<Rightarrow> (Inr v, closure2, context3))
                           | None \<Rightarrow> (Inl SIGFPE, closure2, context2))
                     else (Inl (runtime_error Div_by_zero_message), closure2, context2))
                | _ \<Rightarrow> (Inl (runtime_error ''Failed to Div::Execute ''), closure2, context2))))"

fun Compound_Execute :: "Executable list \<Rightarrow> Executable" where
  "Compound_Execute [] closure context = (Inr NoneHandle, closure, context)"
| "Compound_Execute (arg # args) closure context =
     (case arg closure context of
        (Inl e, closure', context') \<Rightarrow> (Inl e, closure', context')
      | (Inr v, closure', context') \<Rightarrow> Compound_Execute args closure' context')"

text \<open>\<^verbatim>\<open>Return::Execute\<close> is \<^verbatim>\<open>throw statement_->Execute(closure, context);\<close>: the value of
  the statement is thrown as an \<^verbatim>\<open>ObjectHolder\<close>.\<close>

definition Return_Execute :: "Executable \<Rightarrow> Executable" where
  "Return_Execute statement closure context =
     (case statement closure context of
        (Inl e, closure', context') \<Rightarrow> (Inl e, closure', context')
      | (Inr v, closure', context') \<Rightarrow> (Inl (Thrown_ObjectHolder v), closure', context'))"

text \<open>\<^verbatim>\<open>FieldAssignment::Execute\<close>: the object is a \<^verbatim>\<open>VariableValue\<close> node; the field map
  that is written is the one the instance has when \<^verbatim>\<open>rv_\<close> has returned.\<close>

definition set_field :: "nat \<Rightarrow> string \<Rightarrow> ObjectHolder \<Rightarrow> Context \<Rightarrow> Context" where
  "set_field a name v context =
     (case Get (heap context) (Handle a) of
        Some (ClassInstance cls fs) \<Rightarrow>
          context\<lparr>heap := (heap context)[a := ClassInstance cls (fs(name \<mapsto> v))]\<rparr>
      | _ \<Rightarrow> context)"

definition FieldAssignment_Execute ::
    "string \<Rightarrow> string list \<Rightarrow> string \<Rightarrow> Executable \<Rightarrow> Executable" where
  "FieldAssignment_Execute var_name dotted_ids field_name rv closure context =
     (case VariableValue_Execute var_name dotted_ids closure context of
        (Inl e, closure1, context1) \<Rightarrow> (Inl e, closure1, context1)
      | (Inr obj, closure1, context1) \<Rightarrow>
          (case TryAs_ClassInstance (heap context1) obj of
             Some class_ptr \<Rightarrow>
               (case rv closure1 context1 of
                  (Inl e, closure2, context2) \<Rightarrow> (Inl e, closure2, context2)
                | (Inr v, closure2, context2) \<Rightarrow>
                    (Inr v, closure2, set_field class_ptr field_name v context2))
           | None \<Rightarrow>
               (Inl (runtime_error ''Failed to FieldAssignment::Execute ''), closure1, context1)))"

definition IfElse_Execute :: "Executable \<Rightarrow> Executable \<Rightarrow> Executable option \<Rightarrow> Executable" where
  "IfElse_Execute condition if_body else_body closure context =
     (case condition closure context of
        (Inl e, closure1, context1) \<Rightarrow> (Inl e, closure1, context1)
      | (Inr c, closure1, context1) \<Rightarrow>
          (if IsTrue (heap context1) c then if_body closure1 context1
           else (case else_body of
                   Some body \<Rightarrow> body closure1 context1
                 | None \<Rightarrow> (Inr NoneHandle, closure1, context1))))"

definition Or_Execute :: "Executable \<Rightarrow> Executable \<Rightarrow> Executable" where
  "Or_Execute lhs rhs closure context =
     (case lhs closure context of
        (Inl e, closure1, context1) \<Rightarrow> (Inl e, closure1, context1)
      | (Inr l, closure1, context1) \<Rightarrow>
          (if IsTrue (heap context1) l
           then (case Own (Bool True) context1 of (v, context2) \<Rightarrow> (Inr v, closure1, context2))
           else (case rhs closure1 context1 of
                   (Inl e, closure2, context2) \<Rightarrow> (Inl e, closure2, context2)
                 | (Inr r, closure2, context2) \<Rightarrow>
                     (if IsTrue (heap context2) r
                      then (case Own (Bool True) context2 of
                              (v, context3) \<Rightarrow> (Inr v, closure2, context3))
                      else (case Own (Bool False) context2 of
                              (v, context3) \<Rightarrow> (Inr v, closure2, context3))))))"

definition And_Execute :: "Executable \<Rightarrow> Executable \<Rightarrow> Executable" where
  "And_Execute lhs rhs closure context =
     (case lhs closure context of
        (Inl e, closure1, context1) \<Rightarrow> (Inl e, closure1, context1)
      | (Inr l, closure1, context1) \<Rightarrow>
          (if IsTrue (heap context1) l
           then (case rhs closure1 context1 of
                   (Inl e, closure2, context2) \<Rightarrow> (Inl e, closure2, context2)
                 | (Inr r, closure2, context2) \<Rightarrow>
                     (if IsTrue (heap context2) r
                      then (case Own (Bool True) context2 of
                              (v, context3) \<Rightarrow> (Inr v, closure2, context3))
                      else (case Own (Bool False) context2 of
                              (v, context3) \<Rightarrow> (Inr v, closure2, context3))))
           else (case Own (Bool False) context1 of
                   (v, context2) \<Rightarrow> (Inr v, closure1, context2))))"

text \<open>
  A \<^verbatim>\<open>NewInstance\<close> node has the member \<^verbatim>\<open>runtime::ClassInstance class_instance_\<close>, built
  from the class by the constructor of the node. The node is given by the address of that
  member; \<^verbatim>\<open>Execute\<close> returns \<^verbatim>\<open>ObjectHolder::Share(class_instance_)\<close>.
\<close>

definition NewInstance_Execute :: "Call \<Rightarrow> nat \<Rightarrow> Executable list \<Rightarrow> Executable" where
  "NewInstance_Execute call class_instance args closure context =
     (if ClassInstance_HasMethod (heap context) class_instance INIT_METHOD (length args)
      then (case Execute_args args closure context of
              (Inl e, closure1, context1) \<Rightarrow> (Inl e, closure1, context1)
            | (Inr tmp_args, closure1, context1) \<Rightarrow>
                (case call class_instance INIT_METHOD tmp_args context1 of
                   (Inl e, context2) \<Rightarrow> (Inl e, closure1, context2)
                 | (Inr r, context2) \<Rightarrow> (Inr (Handle class_instance), closure1, context2)))
      else (Inr (Handle class_instance), closure, context))"

text \<open>\<^verbatim>\<open>MethodBody::Execute\<close>: the value of the body is returned; a thrown
  \<^verbatim>\<open>ObjectHolder\<close> is caught and returned; \<^verbatim>\<open>catch (...)\<close> takes every other exception and
  throws a \<^verbatim>\<open>std::runtime_error\<close> of its own. A signal is not an exception and is not
  caught.\<close>

definition MethodBody_message :: string where
  "MethodBody_message = ''MethodBody::Catched undefined object''"

definition MethodBody_Execute :: "Executable \<Rightarrow> Executable" where
  "MethodBody_Execute body closure context =
     (case body closure context of
        (Inr v, closure', context') \<Rightarrow> (Inr v, closure', context')
      | (Inl (Thrown_ObjectHolder obj), closure', context') \<Rightarrow> (Inr obj, closure', context')
      | (Inl SIGFPE, closure', context') \<Rightarrow> (Inl SIGFPE, closure', context')
      | (Inl e, closure', context') \<Rightarrow> (Inl (runtime_error MethodBody_message), closure', context'))"

subsection \<open>Printing of values\<close>

text \<open>
  Modelled from the spec: \<^verbatim>\<open>Object::Print\<close> of the value kinds (runtime.h is missing).
  A Number prints in decimal, a String as its characters, a Bool as True or False, a class
  as \<^verbatim>\<open>Class\<close> and its name. Printing an instance goes through its methods and is the
  parameter \<open>instance_print\<close>.
\<close>

fun decimal :: "nat \<Rightarrow> string" where
  "decimal n =
     (if n < 10 then [''0123456789'' ! n]
      else decimal (n div 10) @ [''0123456789'' ! (n mod 10)])"

definition Number_text :: "32 word \<Rightarrow> string" where
  "Number_text n =
     (if sint n < 0 then CHR ''-'' # decimal (nat (- sint n)) else decimal (nat (sint n)))"

definition Object_Print :: "Printer \<Rightarrow> Printer" where
  "Object_Print instance_print a context =
     (case Get (heap context) (Handle a) of
        Some (Number n) \<Rightarrow> (None, put (Number_text n) context)
      | Some (String s) \<Rightarrow> (None, put s context)
      | Some (Bool b) \<Rightarrow> (None, put (if b then ''True'' else ''False'') context)
      | Some (ClassObject c) \<Rightarrow> (None, put (''Class '' @ GetName c) context)
      | Some (ClassInstance c fs) \<Rightarrow> instance_print a context
      | None \<Rightarrow> (None, context))"

subsection \<open>Two readings of Print, for comparison with the loop of the source\<close>

text \<open>
  The reading in which every argument is evaluated before any character is written: the
  values are collected first, then printed with single spaces between them and a newline
  at the end.
\<close>

fun print_values :: "Printer \<Rightarrow> bool \<Rightarrow> ObjectHolder list \<Rightarrow> Context \<Rightarrow> exception option \<times> Context" where
  "print_values print_object is_first [] context = (None, put [CHR 0x0A] context)"
| "print_values print_object is_first (v # vs) context =
     (case v of
        NoneHandle \<Rightarrow>
          print_values print_object False vs
            (put ''None'' (if \<not> is_first then put '' '' context else context))
      | Handle a \<Rightarrow>
          (case print_object a (if \<not> is_first then put '' '' context else context) of
             (Some e, context') \<Rightarrow> (Some e, context')
           | (None, context') \<Rightarrow> print_values print_object False vs context'))"

definition Print_arguments_first :: "Printer \<Rightarrow> Executable list \<Rightarrow> Executable" where
  "Print_arguments_first print_object args closure context =
     (case Execute_args args closure context of
        (Inl e, closure', context') \<Rightarrow> (Inl e, closure', context')
      | (Inr vs, closure', context') \<Rightarrow>
          (case print_values print_object True vs context' of
             (Some e, context'') \<Rightarrow> (Inl e, closure', context'')
           | (None, context'') \<Rightarrow> (Inr NoneHandle, closure', context'')))"

text \<open>
  The streaming reading: one step per argument, which writes the separator, evaluates the
  argument and prints its value at once. \<open>Print_items\<close> runs the steps in order, the first
  with an empty separator and the others with a space, and ends the line.
\<close>

definition Print_item :: "Printer \<Rightarrow> string \<Rightarrow> Executable \<Rightarrow> Executable" where
  "Print_item print_object separator arg closure context =
     (case arg closure (put separator context) of
        (Inl e, closure', context') \<Rightarrow> (Inl e, closure', context')
      | (Inr NoneHandle, closure', context') \<Rightarrow> (Inr NoneHandle, closure', put ''None'' context')
      | (Inr (Handle a), closure', context') \<Rightarrow>
          (case print_object a context' of
             (Some e, context'') \<Rightarrow> (Inl e, closure', context'')
           | (None, context'') \<Rightarrow> (Inr NoneHandle, closure', context'')))"

fun separators :: "bool \<Rightarrow> 'a list \<Rightarrow> string list" where
  "separators is_first [] = []"
| "separators is_first (x # xs) = (if is_first then [] else '' '') # separators False xs"

definition Print_items :: "Printer \<Rightarrow> Executable list \<Rightarrow> Executable" where
  "Print_items print_object args closure context =
     (case Compound_Execute (map2 (Print_item print_object) (separators True args) args)
             closure context of
        (Inl e, closure', context') \<Rightarrow> (Inl e, closure', context')
      | (Inr v, closure', context') \<Rightarrow> (Inr NoneHandle, closure', put [CHR 0x0A] context'))"

text \<open>The text of a value under a printer that writes \<open>text a\<close> for the object at \<open>a\<close>, and
  the line made of the texts of some values.\<close>

definition value_text :: "(nat \<Rightarrow> string) \<Rightarrow> ObjectHolder \<Rightarrow> string" where
  "value_text text v = (case v of NoneHandle \<Rightarrow> ''None'' | Handle a \<Rightarrow> text a)"

fun spaced :: "string list \<Rightarrow> string" where
  "spaced [] = []"
| "spaced [s] = s"
| "spaced (s # t # ts) = s @ '' '' @ spaced (t # ts)"

definition literal :: "ObjectHolder \<Rightarrow> Executable" where
  "literal v = (case v of NoneHandle \<Rightarrow> None_Execute | Handle a \<Rightarrow> ValueStatement_Execute a)"

text \<open>
  The arguments \<open>args\<close> evaluated in order, in words of their own executions: the first
  argument is executed in the given closure and context and returns the first value,
  each next argument is executed in the closure and context the one before it left and
  returns the next value, and the last one leaves the final closure and context.
\<close>

fun arguments_in_order ::
    "Executable list \<Rightarrow> Closure \<Rightarrow> Context \<Rightarrow> ObjectHolder list \<Rightarrow> Closure \<Rightarrow> Context \<Rightarrow> bool" where
  "arguments_in_order [] closure context vs closure' context' =
     (vs = [] \<and> closure' = closure \<and> context' = context)"
| "arguments_in_order (arg # args) closure context vs closure' context' =
     (case vs of
        [] \<Rightarrow> False
      | v # ws \<Rightarrow>
          (case arg closure context of
             (Inr v1, closure1, context1) \<Rightarrow>
               v1 = v \<and> arguments_in_order args closure1 context1 ws closure' context'
           | (Inl e, closure1, context1) \<Rightarrow> False))"

definition is_Return_transfer :: "exception \<Rightarrow> bool" where
  "is_Return_transfer e = (case e of Thrown_ObjectHolder obj \<Rightarrow> True | _ \<Rightarrow> False)"

section \<open>Properties\<close>

subsection \<open>Truncating division on 32-bit integers\<close>

lemma sdiv_mult_cancel: "b \<noteq> 0 \<Longrightarrow> ((a::int) * b) sdiv b = a"
proof -
  assume b: "b \<noteq> 0"
  have "sgn b * sgn b = 1" using b by (simp add: sgn_mult_self_eq)
  then have "sgn a * sgn b * sgn b * \<bar>a\<bar> = sgn a * \<bar>a\<bar>"
    by (simp add: mult.assoc)
  then show ?thesis using b
    by (simp add: signed_divide_int_def abs_mult sgn_mult mult.assoc [symmetric] mult_sgn_abs)
qed

lemma int_div_mult:
  fixes n m :: "32 word"
  assumes "m \<noteq> 0" "- (2 ^ 31) \<le> sint n * sint m" "sint n * sint m < 2 ^ 31"
  shows "int_div (int_mult n m) m = Some n"
proof -
  have p: "sint (n * m) = sint n * sint m"
    using assms(2,3) by (simp add: sint_word_mult signed_take_bit_int_eq_self)
  have m: "sint m \<noteq> 0"
    using assms(1) by (simp add: signed_eq_0_iff)
  have "sint n < 2 ^ 31"
    using sint_lt [of n] by simp
  then have "\<not> (sint n * sint m = - (2 ^ 31) \<and> sint m = - 1)"
    by auto
  then show ?thesis
    using assms(1) p m by (simp add: int_div_def int_mult_def sdiv_mult_cancel)
qed

lemma abs_div_le:
  fixes a b :: int
  assumes "b \<noteq> 0"
  shows "\<bar>a\<bar> div \<bar>b\<bar> \<le> \<bar>a\<bar>"
proof -
  have "1 \<le> \<bar>b\<bar>" using assms by arith
  then have "\<bar>a\<bar> div \<bar>b\<bar> \<le> \<bar>a\<bar> div 1"
    by (intro zdiv_mono2) simp_all
  then show ?thesis by simp
qed

lemma abs_div_lt:
  fixes a b :: int
  assumes "2 \<le> \<bar>b\<bar>" "a \<noteq> 0"
  shows "\<bar>a\<bar> div \<bar>b\<bar> < \<bar>a\<bar>"
proof -
  have "\<bar>a\<bar> div \<bar>b\<bar> \<le> \<bar>a\<bar> div 2"
    using assms by (intro zdiv_mono2) simp_all
  also have "\<dots> < \<bar>a\<bar>" using assms(2) by arith
  finally show ?thesis .
qed

lemma sdiv_bounds:
  fixes a b :: int
  assumes "- (2 ^ 31) \<le> a" "a < 2 ^ 31" "b \<noteq> 0" "\<not> (a = - (2 ^ 31) \<and> b = - 1)"
  shows "- (2 ^ 31) \<le> a sdiv b \<and> a sdiv b < 2 ^ 31"
proof -
  define q where "q = \<bar>a\<bar> div \<bar>b\<bar>"
  have q0: "0 \<le> q" unfolding q_def by (cases "b = 0") (simp_all add: pos_imp_zdiv_nonneg_iff)
  have q1: "q \<le> \<bar>a\<bar>" unfolding q_def using assms(3) by (rule abs_div_le)
  have s: "a sdiv b = q \<or> a sdiv b = - q"
    using assms(3) by (cases "a < 0"; cases "b < 0"; cases "a = 0")
      (simp_all add: signed_divide_int_def q_def sgn_if)
  show ?thesis
  proof (cases "a = - (2 ^ 31)")
    case False
    then have "\<bar>a\<bar> < 2 ^ 31" using assms(1,2) by arith
    then show ?thesis using s q0 q1 by arith
  next
    case True
    then have bm: "b \<noteq> - 1" using assms(4) by simp
    show ?thesis
    proof (cases "b = 1")
      case True
      then show ?thesis using \<open>a = - (2 ^ 31)\<close> by (simp add: signed_divide_int_def)
    next
      case False
      then have "2 \<le> \<bar>b\<bar>" using bm assms(3) by arith
      then have "q < \<bar>a\<bar>" unfolding q_def using True by (intro abs_div_lt) simp_all
      then have "q < 2 ^ 31" using True by simp
      then show ?thesis using s q0 by arith
    qed
  qed
qed

lemma int_div_Some:
  fixes a b :: "32 word"
  assumes "b \<noteq> 0" "\<not> (sint a = - (2 ^ 31) \<and> sint b = - 1)"
  shows "\<exists>q. int_div a b = Some q \<and> sint q = sint a sdiv sint b"
proof -
  have "sint b \<noteq> 0" using assms(1) by (simp add: signed_eq_0_iff)
  moreover have "- (2 ^ 31) \<le> sint a" "sint a < 2 ^ 31"
    using sint_ge [of a] sint_lt [of a] by simp_all
  ultimately have "- (2 ^ 31) \<le> sint a sdiv sint b \<and> sint a sdiv sint b < 2 ^ 31"
    using assms(2) by (intro sdiv_bounds) simp_all
  then have "sint (word_of_int (sint a sdiv sint b) :: 32 word) = sint a sdiv sint b"
    by (simp add: sint_sbintrunc' signed_take_bit_int_eq_self)
  then show ?thesis
    using assms by (simp add: int_div_def)
qed

subsection \<open>MethodBody and Return\<close>

text \<open>
  C1. A method body yields the value carried by a \<^verbatim>\<open>Return\<close> and, says the claim with the
  comment of \<^verbatim>\<open>MethodBody\<close> in the header, None when the body completes without one. The
  code returns \<^verbatim>\<open>body_->Execute(closure, context)\<close> instead: a body that completes with a
  value makes the method body yield that value. Here the body is the literal 5, stored at
  address 0, and the method body yields the handle of the literal, not the empty handle.
\<close>

theorem MethodBody_yields_value_of_body:
  "MethodBody_Execute (ValueStatement_Execute 0) Map.empty
       \<lparr>output_stream = [], heap = [Number 5]\<rparr>
     = (Inr (Handle 0), Map.empty, \<lparr>output_stream = [], heap = [Number 5]\<rparr>)
   \<and> Get [Number 5] (Handle 0) = Some (Number 5)"
  by (simp add: MethodBody_Execute_def ValueStatement_Execute_def Get_def)

text \<open>The behaviour for every body: a thrown handle is caught and becomes the result; a
  value of the body is passed on as it is; a run that the signal has killed stays killed. A \<^verbatim>\<open>Return\<close> inside a branch of an
  \<^verbatim>\<open>IfElse\<close> inside a compound statement reaches the method body, and the statements after
  it are not executed.\<close>

lemma MethodBody_Return:
  "body closure context = (Inl (Thrown_ObjectHolder obj), closure', context') \<Longrightarrow>
   MethodBody_Execute body closure context = (Inr obj, closure', context')"
  by (simp add: MethodBody_Execute_def)

lemma MethodBody_normal:
  "body closure context = (Inr v, closure', context') \<Longrightarrow>
   MethodBody_Execute body closure context = (Inr v, closure', context')"
  by (simp add: MethodBody_Execute_def)

lemma MethodBody_signal:
  "body closure context = (Inl SIGFPE, closure', context') \<Longrightarrow>
   MethodBody_Execute body closure context = (Inl SIGFPE, closure', context')"
  by (simp add: MethodBody_Execute_def)

lemma Return_in_IfElse_in_MethodBody:
  "condition closure context = (Inr c, closure1, context1) \<Longrightarrow> IsTrue (heap context1) c \<Longrightarrow>
   statement closure1 context1 = (Inr v, closure2, context2) \<Longrightarrow>
   MethodBody_Execute
     (Compound_Execute
        [IfElse_Execute condition (Compound_Execute [Return_Execute statement]) else_body, rest])
     closure context
     = (Inr v, closure2, context2)"
  by (simp add: MethodBody_Execute_def Return_Execute_def IfElse_Execute_def)

lemma Return_in_Compound_in_MethodBody:
  "statement closure context = (Inr v, closure', context') \<Longrightarrow>
   MethodBody_Execute (Compound_Execute (Return_Execute statement # rest)) closure context
     = (Inr v, closure', context')"
  by (simp add: MethodBody_Execute_def Return_Execute_def)

text \<open>
  C3, as the code has it. A failure that the body raises and that is not the transfer of
  a \<^verbatim>\<open>Return\<close> is caught by \<^verbatim>\<open>catch (...)\<close> and replaced: what reaches the caller is the
  runtime error with the fixed message of \<^verbatim>\<open>MethodBody\<close>, whatever the body raised, in the
  closure and context the body left.
\<close>

theorem MethodBody_replaces_failure:
  assumes "body closure context = (Inl e, closure', context')"
    and "\<not> is_Return_transfer e" and "e \<noteq> SIGFPE"
  shows "MethodBody_Execute body closure context
           = (Inl (runtime_error MethodBody_message), closure', context')"
  using assms by (cases e) (simp_all add: MethodBody_Execute_def is_Return_transfer_def)

text \<open>The body \<^verbatim>\<open>1 / 0\<close>, as the only statement of a compound statement.\<close>

theorem MethodBody_replaces_failure_witness:
  "MethodBody_Execute
       (Compound_Execute [Div_Execute (ValueStatement_Execute 0) (ValueStatement_Execute 1)])
       Map.empty \<lparr>output_stream = [], heap = [Number 1, Number 0]\<rparr>
     = (Inl (runtime_error ''MethodBody::Catched undefined object''), Map.empty,
        \<lparr>output_stream = [], heap = [Number 1, Number 0]\<rparr>)"
  using MethodBody_replaces_failure
    [of "Compound_Execute [Div_Execute (ValueStatement_Execute 0) (ValueStatement_Execute 1)]"
        Map.empty "\<lparr>output_stream = [], heap = [Number 1, Number 0]\<rparr>"
        "runtime_error Div_by_zero_message" Map.empty
        "\<lparr>output_stream = [], heap = [Number 1, Number 0]\<rparr>"]
  by (simp add: is_Return_transfer_def MethodBody_message_def Div_Execute_def
      ValueStatement_Execute_def TryAs_Number_def Get_def)

text \<open>
  C3, as the claim states it, fails: the body \<^verbatim>\<open>1 / 0\<close> raises the runtime error of the
  division by zero, and the error that leaves the method body has another message.
\<close>

theorem MethodBody_message_lost_counterexample:
  "fst (Compound_Execute [Div_Execute (ValueStatement_Execute 0) (ValueStatement_Execute 1)]
          Map.empty \<lparr>output_stream = [], heap = [Number 1, Number 0]\<rparr>)
     = Inl (runtime_error Div_by_zero_message)
   \<and> fst (MethodBody_Execute
          (Compound_Execute [Div_Execute (ValueStatement_Execute 0) (ValueStatement_Execute 1)])
          Map.empty \<lparr>output_stream = [], heap = [Number 1, Number 0]\<rparr>)
     = Inl (runtime_error MethodBody_message)
   \<and> MethodBody_message \<noteq> Div_by_zero_message"
  by (simp add: MethodBody_Execute_def MethodBody_message_def Div_by_zero_message_def
      Div_Execute_def ValueStatement_Execute_def TryAs_Number_def Get_def)

subsection \<open>VariableValue\<close>

text \<open>
  C2. The claim has a runtime error for an attribute hop on a value that is not an
  instance, as \<^verbatim>\<open>FieldAssignment::Execute\<close> raises one for its target. The loop of
  \<^verbatim>\<open>VariableValue::Execute\<close> has no \<^verbatim>\<open>else\<close> for that case and goes on: with \<^verbatim>\<open>x\<close> bound to
  the number 5, \<^verbatim>\<open>x.a\<close> evaluates to the handle of \<^verbatim>\<open>x\<close> and nothing is raised.
\<close>

theorem VariableValue_skips_hop_on_non_instance:
  "VariableValue_Execute ''x'' [''a''] [''x'' \<mapsto> Handle 0]
       \<lparr>output_stream = [], heap = [Number 5]\<rparr>
     = (Inr (Handle 0), [''x'' \<mapsto> Handle 0], \<lparr>output_stream = [], heap = [Number 5]\<rparr>)"
  by (simp add: VariableValue_Execute_def TryAs_ClassInstance_def Get_def)

text \<open>The parts of the claim that the code has: an unknown name is a runtime error, and a
  hop on an instance reads the field map of that instance.\<close>

lemma VariableValue_unknown_name:
  "closure var_name = None \<Longrightarrow>
   VariableValue_Execute var_name dotted_ids closure context
     = (Inl (runtime_error ''Failed to VariableValue::Execute!''), closure, context)"
  by (simp add: VariableValue_Execute_def)

lemma VariableValue_loop_instance:
  "TryAs_ClassInstance h current_object = Some p \<Longrightarrow> Fields h p d = Some v \<Longrightarrow>
   VariableValue_loop (d # ds) current_object h = VariableValue_loop ds v h"
  by simp

lemma FieldAssignment_on_non_instance:
  "VariableValue_Execute var_name dotted_ids closure context = (Inr obj, closure1, context1) \<Longrightarrow>
   TryAs_ClassInstance (heap context1) obj = None \<Longrightarrow>
   FieldAssignment_Execute var_name dotted_ids field_name rv closure context
     = (Inl (runtime_error ''Failed to FieldAssignment::Execute ''), closure1, context1)"
  by (simp add: FieldAssignment_Execute_def)

subsection \<open>Div\<close>

text \<open>
  C4, as the code has it. When both operands have been evaluated, the left one first and
  the right one in the closure and context the left one left, the node ends in the closure
  and context the right operand left, in one of four ways. If both values are Numbers,
  the right one is not zero and the quotient is an \<^verbatim>\<open>int\<close> (every case but the least
  \<^verbatim>\<open>int\<close> divided by \<open>-1\<close>), the result is a newly owned Number that holds the quotient
  truncated towards zero. If both are Numbers and the right one is zero, the runtime error
  of the division by zero is raised. If an operand is not a Number, the runtime error of
  \<^verbatim>\<open>Div\<close> is raised. For the least \<^verbatim>\<open>int\<close> divided by \<open>-1\<close> the run is killed by the signal:
  nothing is returned and nothing is raised. So a runtime error is raised exactly when an
  operand is not a Number or the right operand is zero.
\<close>

theorem Div_quotient_runtime_error_or_signal:
  assumes "lhs closure context = (Inr l, closure1, context1)"
    and "rhs closure1 context1 = (Inr r, closure2, context2)"
  shows "(TryAs_Number (heap context2) l = Some a \<and> TryAs_Number (heap context2) r = Some b
            \<and> b \<noteq> 0 \<and> \<not> (sint a = - (2 ^ 31) \<and> sint b = - 1) \<longrightarrow>
          (\<exists>q. Div_Execute lhs rhs closure context =
                 (Inr (Handle (length (heap context2))), closure2,
                  context2\<lparr>heap := heap context2 @ [Number q]\<rparr>)
               \<and> sint q = sgn (sint a) * sgn (sint b) * (\<bar>sint a\<bar> div \<bar>sint b\<bar>)))
       \<and> (TryAs_Number (heap context2) l = Some a \<and> TryAs_Number (heap context2) r = Some 0 \<longrightarrow>
          Div_Execute lhs rhs closure context =
            (Inl (runtime_error Div_by_zero_message), closure2, context2))
       \<and> (TryAs_Number (heap context2) l = None \<or> TryAs_Number (heap context2) r = None \<longrightarrow>
          Div_Execute lhs rhs closure context =
            (Inl (runtime_error ''Failed to Div::Execute ''), closure2, context2))
       \<and> (TryAs_Number (heap context2) l = Some a \<and> TryAs_Number (heap context2) r = Some b
            \<and> sint a = - (2 ^ 31) \<and> sint b = - 1 \<longrightarrow>
          Div_Execute lhs rhs closure context = (Inl SIGFPE, closure2, context2))
       \<and> ((\<exists>msg. fst (Div_Execute lhs rhs closure context) = Inl (runtime_error msg)) \<longleftrightarrow>
            (TryAs_Number (heap context2) l = None \<or> TryAs_Number (heap context2) r = None
             \<or> TryAs_Number (heap context2) r = Some 0))"
proof (intro conjI impI)
  assume n: "TryAs_Number (heap context2) l = Some a \<and> TryAs_Number (heap context2) r = Some b
               \<and> b \<noteq> 0 \<and> \<not> (sint a = - (2 ^ 31) \<and> sint b = - 1)"
  then obtain q where q: "int_div a b = Some q" "sint q = sint a sdiv sint b"
    using int_div_Some [of b a] by auto
  have "Div_Execute lhs rhs closure context =
      (Inr (Handle (length (heap context2))), closure2,
       context2\<lparr>heap := heap context2 @ [Number q]\<rparr>)"
    using assms n q(1) by (simp add: Div_Execute_def Own_def)
  moreover have "sint q = sgn (sint a) * sgn (sint b) * (\<bar>sint a\<bar> div \<bar>sint b\<bar>)"
    using q(2) by (simp add: signed_divide_int_def)
  ultimately show "\<exists>q. Div_Execute lhs rhs closure context =
                 (Inr (Handle (length (heap context2))), closure2,
                  context2\<lparr>heap := heap context2 @ [Number q]\<rparr>)
               \<and> sint q = sgn (sint a) * sgn (sint b) * (\<bar>sint a\<bar> div \<bar>sint b\<bar>)"
    by blast
next
  assume "TryAs_Number (heap context2) l = Some a \<and> TryAs_Number (heap context2) r = Some 0"
  then show "Div_Execute lhs rhs closure context =
      (Inl (runtime_error Div_by_zero_message), closure2, context2)"
    using assms by (simp add: Div_Execute_def)
next
  assume "TryAs_Number (heap context2) l = None \<or> TryAs_Number (heap context2) r = None"
  then show "Div_Execute lhs rhs closure context =
      (Inl (runtime_error ''Failed to Div::Execute ''), closure2, context2)"
    using assms by (auto simp add: Div_Execute_def split: option.splits)
next
  assume s: "TryAs_Number (heap context2) l = Some a \<and> TryAs_Number (heap context2) r = Some b
               \<and> sint a = - (2 ^ 31) \<and> sint b = - 1"
  then have "b \<noteq> 0" by auto
  then show "Div_Execute lhs rhs closure context = (Inl SIGFPE, closure2, context2)"
    using assms s by (simp add: Div_Execute_def int_div_def)
next
  show "(\<exists>msg. fst (Div_Execute lhs rhs closure context) = Inl (runtime_error msg)) \<longleftrightarrow>
      (TryAs_Number (heap context2) l = None \<or> TryAs_Number (heap context2) r = None
       \<or> TryAs_Number (heap context2) r = Some 0)"
    using assms by (auto simp add: Div_Execute_def Own_def split: option.splits)
qed

text \<open>The literals \<open>-7\<close>, \<open>2\<close>, \<open>0\<close> and True at the addresses 0 to 3. \<open>-7 / 2\<close> is \<open>-3\<close>,
  not the \<open>-4\<close> of a division that rounds down; \<open>-7 / 0\<close> and \<open>True / 2\<close> raise their
  runtime errors.\<close>

theorem Div_quotient_runtime_error_or_signal_witness:
  "Div_Execute (ValueStatement_Execute 0) (ValueStatement_Execute 1) Map.empty
       \<lparr>output_stream = [], heap = [Number (- 7), Number 2, Number 0, Bool True]\<rparr>
     = (Inr (Handle 4), Map.empty,
        \<lparr>output_stream = [],
           heap = [Number (- 7), Number 2, Number 0, Bool True, Number (- 3)]\<rparr>)
   \<and> Div_Execute (ValueStatement_Execute 0) (ValueStatement_Execute 2) Map.empty
       \<lparr>output_stream = [], heap = [Number (- 7), Number 2, Number 0, Bool True]\<rparr>
     = (Inl (runtime_error Div_by_zero_message), Map.empty,
        \<lparr>output_stream = [], heap = [Number (- 7), Number 2, Number 0, Bool True]\<rparr>)
   \<and> Div_Execute (ValueStatement_Execute 3) (ValueStatement_Execute 1) Map.empty
       \<lparr>output_stream = [], heap = [Number (- 7), Number 2, Number 0, Bool True]\<rparr>
     = (Inl (runtime_error ''Failed to Div::Execute ''), Map.empty,
        \<lparr>output_stream = [], heap = [Number (- 7), Number 2, Number 0, Bool True]\<rparr>)"
  using Div_quotient_runtime_error_or_signal
    [of "ValueStatement_Execute 0" Map.empty
        "\<lparr>output_stream = [], heap = [Number (- 7), Number 2, Number 0, Bool True]\<rparr>" "Handle 0" Map.empty
        "\<lparr>output_stream = [], heap = [Number (- 7), Number 2, Number 0, Bool True]\<rparr>"
        "ValueStatement_Execute 1" "Handle 1" Map.empty
        "\<lparr>output_stream = [], heap = [Number (- 7), Number 2, Number 0, Bool True]\<rparr>" "- 7" 2]
    Div_quotient_runtime_error_or_signal
    [of "ValueStatement_Execute 0" Map.empty
        "\<lparr>output_stream = [], heap = [Number (- 7), Number 2, Number 0, Bool True]\<rparr>" "Handle 0" Map.empty
        "\<lparr>output_stream = [], heap = [Number (- 7), Number 2, Number 0, Bool True]\<rparr>"
        "ValueStatement_Execute 2" "Handle 2" Map.empty
        "\<lparr>output_stream = [], heap = [Number (- 7), Number 2, Number 0, Bool True]\<rparr>" "- 7" 0]
    Div_quotient_runtime_error_or_signal
    [of "ValueStatement_Execute 3" Map.empty
        "\<lparr>output_stream = [], heap = [Number (- 7), Number 2, Number 0, Bool True]\<rparr>" "Handle 3" Map.empty
        "\<lparr>output_stream = [], heap = [Number (- 7), Number 2, Number 0, Bool True]\<rparr>"
        "ValueStatement_Execute 1" "Handle 1" Map.empty
        "\<lparr>output_stream = [], heap = [Number (- 7), Number 2, Number 0, Bool True]\<rparr>" 0 2]
  by (simp add: ValueStatement_Execute_def TryAs_Number_def Get_def int_div_def
      signed_divide_int_def Div_Execute_def Own_def)

text \<open>
  C4, as the claim states it, fails. The literals are the least \<^verbatim>\<open>int\<close> and \<open>-1\<close>: both
  operands are Numbers and the right one is not zero, and the division does not give a
  Number: the quotient \<open>2^31\<close> is no \<^verbatim>\<open>int\<close>, the division is undefined and the run is killed.
\<close>

theorem Div_least_int_by_minus_one_counterexample:
  "TryAs_Number [Number (- 2147483648), Number (- 1)] (Handle 0) = Some (- 2147483648)
   \<and> TryAs_Number [Number (- 2147483648), Number (- 1)] (Handle 1) = Some (- 1)
   \<and> (- 1 :: 32 word) \<noteq> 0
   \<and> Div_Execute (ValueStatement_Execute 0) (ValueStatement_Execute 1) Map.empty
       \<lparr>output_stream = [], heap = [Number (- 2147483648), Number (- 1)]\<rparr>
     = (Inl SIGFPE, Map.empty,
        \<lparr>output_stream = [], heap = [Number (- 2147483648), Number (- 1)]\<rparr>)"
  by (simp add: Div_Execute_def ValueStatement_Execute_def TryAs_Number_def Get_def int_div_def)

subsection \<open>Assignment\<close>

text \<open>
  C10, as the code has it. When the evaluation of the right-hand side raises, the
  assignment ends with that exception and leaves the closure and the context exactly as
  the evaluation of the right-hand side left them: the assignment itself creates no
  binding for the name and changes none.
\<close>

theorem Assignment_failure_leaves_scope:
  assumes "rv closure context = (Inl e, closure', context')"
  shows "Assignment_Execute var rv closure context = (Inl e, closure', context')"
  using assms by (simp add: Assignment_Execute_def)

text \<open>The scope binds \<^verbatim>\<open>x\<close>; \<^verbatim>\<open>x = y\<close> fails for the unknown \<^verbatim>\<open>y\<close> and \<^verbatim>\<open>x\<close> keeps its
  value.\<close>

theorem Assignment_failure_leaves_scope_witness:
  "Assignment_Execute ''x'' (VariableValue_Execute ''y'' []) [''x'' \<mapsto> Handle 0]
       \<lparr>output_stream = [], heap = [Number 5]\<rparr>
     = (Inl (runtime_error ''Failed to VariableValue::Execute!''), [''x'' \<mapsto> Handle 0],
        \<lparr>output_stream = [], heap = [Number 5]\<rparr>)"
  using Assignment_failure_leaves_scope
    [of "VariableValue_Execute ''y'' []" "[''x'' \<mapsto> Handle 0]"
        "\<lparr>output_stream = [], heap = [Number 5]\<rparr>"
        "runtime_error ''Failed to VariableValue::Execute!''" "[''x'' \<mapsto> Handle 0]"
        "\<lparr>output_stream = [], heap = [Number 5]\<rparr>" "''x''"]
  by (simp add: VariableValue_Execute_def)

text \<open>
  C10, as the claim states it, fails. The right-hand side is the compound statement of
  \<^verbatim>\<open>x = 5\<close> and the unknown \<^verbatim>\<open>y\<close>: its evaluation binds \<^verbatim>\<open>x\<close> and then raises. The
  assignment to \<^verbatim>\<open>x\<close> fails, and the scope, empty before, has a binding for \<^verbatim>\<open>x\<close>.
\<close>

theorem Assignment_rhs_changes_scope_counterexample:
  "Assignment_Execute ''x''
       (Compound_Execute
          [Assignment_Execute ''x'' (ValueStatement_Execute 0), VariableValue_Execute ''y'' []])
       Map.empty \<lparr>output_stream = [], heap = [Number 5]\<rparr>
     = (Inl (runtime_error ''Failed to VariableValue::Execute!''), [''x'' \<mapsto> Handle 0],
        \<lparr>output_stream = [], heap = [Number 5]\<rparr>)
   \<and> (Map.empty :: Closure) ''x'' = None
   \<and> [''x'' \<mapsto> Handle 0] ''x'' = Some (Handle 0)"
  by (simp add: Assignment_Execute_def ValueStatement_Execute_def VariableValue_Execute_def)

subsection \<open>Or and And\<close>

text \<open>
  C5. When the left operand has been evaluated: \<^verbatim>\<open>Or\<close> with a truthy left value is a newly
  owned \<^verbatim>\<open>Bool(true)\<close> in the closure and context the left operand left, whatever the
  right operand is, which is not executed; otherwise the right operand is executed and
  the result is a newly owned Bool that is true exactly when the right value is truthy.
  \<^verbatim>\<open>And\<close> with a falsy left value is a newly owned \<^verbatim>\<open>Bool(false)\<close> and the right operand is
  not executed; otherwise the result is a newly owned Bool that is true exactly when the
  right value is truthy. The handle that is returned has the address after the last
  object of the memory: no empty handle and no handle of an object that exists, so no
  handle an operand has yielded, is equal to it.
\<close>

theorem Or_And_short_circuit_fresh_Bool:
  assumes "lhs closure context = (Inr l, closure1, context1)"
  shows "(IsTrue (heap context1) l \<longrightarrow>
            Or_Execute lhs rhs closure context =
              (Inr (Handle (length (heap context1))), closure1,
               context1\<lparr>heap := heap context1 @ [Bool True]\<rparr>)
          \<and> Or_Execute lhs rhs closure context = Or_Execute lhs rhs' closure context
          \<and> (rhs closure1 context1 = (Inr r, closure2, context2) \<longrightarrow>
               And_Execute lhs rhs closure context =
                 (Inr (Handle (length (heap context2))), closure2,
                  context2\<lparr>heap := heap context2 @ [Bool (IsTrue (heap context2) r)]\<rparr>)))
       \<and> (\<not> IsTrue (heap context1) l \<longrightarrow>
            And_Execute lhs rhs closure context =
              (Inr (Handle (length (heap context1))), closure1,
               context1\<lparr>heap := heap context1 @ [Bool False]\<rparr>)
          \<and> And_Execute lhs rhs closure context = And_Execute lhs rhs' closure context
          \<and> (rhs closure1 context1 = (Inr r, closure2, context2) \<longrightarrow>
               Or_Execute lhs rhs closure context =
                 (Inr (Handle (length (heap context2))), closure2,
                  context2\<lparr>heap := heap context2 @ [Bool (IsTrue (heap context2) r)]\<rparr>)))
       \<and> (\<forall>x v. v = NoneHandle \<or> Get (heap x) v \<noteq> None \<longrightarrow> v \<noteq> Handle (length (heap x)))"
  using assms by (auto simp add: Or_Execute_def And_Execute_def Own_def Get_def)

text \<open>The literals True and False are at the addresses 0 and 1; the right operand is a
  \<^verbatim>\<open>print\<close> without arguments, which writes a newline and yields None. With True on the left,
  \<^verbatim>\<open>Or\<close> leaves the output empty and \<^verbatim>\<open>And\<close> has the newline in it and is false; with
  False on the left, \<^verbatim>\<open>And\<close> leaves the output empty and \<^verbatim>\<open>Or\<close> has the newline in it and
  is false.\<close>

theorem Or_And_short_circuit_fresh_Bool_witness:
  "Or_Execute (ValueStatement_Execute 0) (Print_Execute (Object_Print (\<lambda>a x. (None, x))) [])
       Map.empty \<lparr>output_stream = [], heap = [Bool True, Bool False]\<rparr>
     = (Inr (Handle 2), Map.empty,
        \<lparr>output_stream = [], heap = [Bool True, Bool False, Bool True]\<rparr>)
   \<and> And_Execute (ValueStatement_Execute 0) (Print_Execute (Object_Print (\<lambda>a x. (None, x))) [])
       Map.empty \<lparr>output_stream = [], heap = [Bool True, Bool False]\<rparr>
     = (Inr (Handle 2), Map.empty,
        \<lparr>output_stream = [CHR 0x0A], heap = [Bool True, Bool False, Bool False]\<rparr>)
   \<and> And_Execute (ValueStatement_Execute 1) (Print_Execute (Object_Print (\<lambda>a x. (None, x))) [])
       Map.empty \<lparr>output_stream = [], heap = [Bool True, Bool False]\<rparr>
     = (Inr (Handle 2), Map.empty,
        \<lparr>output_stream = [], heap = [Bool True, Bool False, Bool False]\<rparr>)
   \<and> Or_Execute (ValueStatement_Execute 1) (Print_Execute (Object_Print (\<lambda>a x. (None, x))) [])
       Map.empty \<lparr>output_stream = [], heap = [Bool True, Bool False]\<rparr>
     = (Inr (Handle 2), Map.empty,
        \<lparr>output_stream = [CHR 0x0A], heap = [Bool True, Bool False, Bool False]\<rparr>)"
  using Or_And_short_circuit_fresh_Bool
    [of "ValueStatement_Execute 0" Map.empty
        "\<lparr>output_stream = [], heap = [Bool True, Bool False]\<rparr>"
        "Handle 0" Map.empty "\<lparr>output_stream = [], heap = [Bool True, Bool False]\<rparr>"
        "Print_Execute (Object_Print (\<lambda>a x. (None, x))) []" None_Execute NoneHandle Map.empty
        "\<lparr>output_stream = [CHR 0x0A], heap = [Bool True, Bool False]\<rparr>"]
    Or_And_short_circuit_fresh_Bool
    [of "ValueStatement_Execute 1" Map.empty
        "\<lparr>output_stream = [], heap = [Bool True, Bool False]\<rparr>"
        "Handle 1" Map.empty "\<lparr>output_stream = [], heap = [Bool True, Bool False]\<rparr>"
        "Print_Execute (Object_Print (\<lambda>a x. (None, x))) []" None_Execute NoneHandle Map.empty
        "\<lparr>output_stream = [CHR 0x0A], heap = [Bool True, Bool False]\<rparr>"]
  by (auto simp add: ValueStatement_Execute_def IsTrue_def Get_def Print_Execute_def put_def)

subsection \<open>NewInstance\<close>

text \<open>
  C6. The claim, with the comment of \<^verbatim>\<open>NewInstance\<close> in the header, has a new instance for
  every execution. The instance is a member of the node, built once with the node, and
  every execution returns a shared handle to that one object. Here the node of a class
  without \<^verbatim>\<open>__init__\<close> is executed, the field \<^verbatim>\<open>n\<close> of the object it returned is set, and
  the node is executed again: both executions return the handle of address 0, the second
  object has the field \<^verbatim>\<open>n\<close> already, and no object has been allocated.
\<close>

theorem NewInstance_returns_the_instance_of_the_node:
  "(case NewInstance_Execute (\<lambda>p m vs x. (Inr NoneHandle, x)) 0 [] Map.empty
           \<lparr>output_stream = [], heap = [ClassInstance (Class ''P'' [] None) Map.empty, Number 7]\<rparr> of
      (first, closure1, context1) \<Rightarrow>
        (case NewInstance_Execute (\<lambda>p m vs x. (Inr NoneHandle, x)) 0 [] closure1
                (set_field 0 ''n'' (Handle 1) context1) of
           (second, closure2, context2) \<Rightarrow>
             first = Inr (Handle 0) \<and> second = Inr (Handle 0)
             \<and> Fields (heap context2) 0 ''n'' = Some (Handle 1)
             \<and> length (heap context2) = 2))"
  by (simp add: NewInstance_Execute_def ClassInstance_HasMethod_def Get_def INIT_METHOD_def
      set_field_def Fields_def)

text \<open>What the code has of the claim: whenever the node returns a value, it is the handle
  of its instance; without a matching \<^verbatim>\<open>__init__\<close> nothing is evaluated or invoked.\<close>

lemma NewInstance_result:
  "NewInstance_Execute call class_instance args closure context = (Inr v, closure', context') \<Longrightarrow>
   v = Handle class_instance"
  by (auto simp add: NewInstance_Execute_def split: if_splits prod.splits sum.splits)

lemma NewInstance_without_init:
  "\<not> ClassInstance_HasMethod (heap context) class_instance INIT_METHOD (length args) \<Longrightarrow>
   NewInstance_Execute call class_instance args closure context
     = (Inr (Handle class_instance), closure, context)"
  by (simp add: NewInstance_Execute_def)

lemma NewInstance_with_init:
  "ClassInstance_HasMethod (heap context) class_instance INIT_METHOD (length args) \<Longrightarrow>
   Execute_args args closure context = (Inr tmp_args, closure1, context1) \<Longrightarrow>
   call class_instance INIT_METHOD tmp_args context1 = (Inr r, context2) \<Longrightarrow>
   NewInstance_Execute call class_instance args closure context
     = (Inr (Handle class_instance), closure1, context2)"
  by (simp add: NewInstance_Execute_def)

subsection \<open>MethodCall\<close>

text \<open>The loop over the arguments runs them from left to right, each in the closure and
  context the one before it left, and stops at the first exception; it returns the values
  exactly when the arguments, executed one after the other in that way, return them.\<close>

lemma Execute_args_append:
  "Execute_args (xs @ ys) closure ctx =
     (case Execute_args xs closure ctx of
        (Inl e, closure', context') \<Rightarrow> (Inl e, closure', context')
      | (Inr vs, closure', context') \<Rightarrow>
          (case Execute_args ys closure' context' of
             (Inl e, closure'', context'') \<Rightarrow> (Inl e, closure'', context'')
           | (Inr ws, closure'', context'') \<Rightarrow> (Inr (vs @ ws), closure'', context'')))"
  by (induction xs arbitrary: closure ctx) (auto split: prod.splits sum.splits)

lemma Execute_args_in_order:
  "Execute_args args closure ctx = (Inr vs, closure', ctx')
     \<longleftrightarrow> arguments_in_order args closure ctx vs closure' ctx'"
proof (induction args arbitrary: closure ctx vs)
  case Nil
  show ?case by auto
next
  case (Cons arg args)
  show ?case
    by (cases vs) (auto simp add: Cons.IH [symmetric] split: prod.splits sum.splits)
qed

text \<open>
  C7. When the object has been evaluated: if its value is an instance and the arguments,
  executed in order from the closure and context the object left, return their values,
  the method is invoked on the instance with these values, in the context the last
  argument left, and the result of the invocation is the result of the node; if the
  value is an instance and an argument raises after the ones before it have returned,
  the node raises the same and the arguments after it are not executed; if the value is
  not an instance, the result is the empty handle, in the closure and context the object
  left, no argument is executed and nothing is raised.
\<close>

theorem MethodCall_arguments_in_order_then_dispatch:
  assumes "object closure context = (Inr current_object, closure1, context1)"
  shows "(TryAs_ClassInstance (heap context1) current_object = Some class_ptr
            \<and> arguments_in_order args closure1 context1 method_args closure2 context2
            \<and> call class_ptr method method_args context2 = (result, context3) \<longrightarrow>
          MethodCall_Execute call object method args closure context
            = (result, closure2, context3))
       \<and> (TryAs_ClassInstance (heap context1) current_object = Some class_ptr
            \<and> arguments_in_order args closure1 context1 method_args closure2 context2
            \<and> arg closure2 context2 = (Inl e, closure3, context4) \<longrightarrow>
          MethodCall_Execute call object method (args @ arg # rest) closure context
            = (Inl e, closure3, context4))
       \<and> (TryAs_ClassInstance (heap context1) current_object = None \<longrightarrow>
          MethodCall_Execute call object method args closure context
            = (Inr NoneHandle, closure1, context1))"
proof (intro conjI impI)
  assume h: "TryAs_ClassInstance (heap context1) current_object = Some class_ptr
      \<and> arguments_in_order args closure1 context1 method_args closure2 context2
      \<and> call class_ptr method method_args context2 = (result, context3)"
  then have "Execute_args args closure1 context1 = (Inr method_args, closure2, context2)"
    by (simp add: Execute_args_in_order)
  then show "MethodCall_Execute call object method args closure context
      = (result, closure2, context3)"
    using assms h by (simp add: MethodCall_Execute_def)
next
  assume h: "TryAs_ClassInstance (heap context1) current_object = Some class_ptr
      \<and> arguments_in_order args closure1 context1 method_args closure2 context2
      \<and> arg closure2 context2 = (Inl e, closure3, context4)"
  then have "Execute_args args closure1 context1 = (Inr method_args, closure2, context2)"
    by (simp add: Execute_args_in_order)
  then have "Execute_args (args @ arg # rest) closure1 context1 = (Inl e, closure3, context4)"
    using h by (simp add: Execute_args_append)
  then show "MethodCall_Execute call object method (args @ arg # rest) closure context
      = (Inl e, closure3, context4)"
    using assms h by (simp add: MethodCall_Execute_def)
next
  assume "TryAs_ClassInstance (heap context1) current_object = None"
  then show "MethodCall_Execute call object method args closure context
      = (Inr NoneHandle, closure1, context1)"
    using assms by (simp add: MethodCall_Execute_def)
qed

text \<open>
  An instance at address 0 and the number 3 at address 1; the invocation is one that
  returns its second argument. The first argument is the assignment \<^verbatim>\<open>t = 3\<close> and the
  second is the variable \<^verbatim>\<open>t\<close>, which has a value only when the first argument has been
  executed before it: the call on the instance returns the 3. With the unknown \<^verbatim>\<open>u\<close> as
  second argument the call raises its error, \<^verbatim>\<open>t\<close> is bound and the third argument, the
  assignment \<^verbatim>\<open>w = 3\<close>, has not been executed. The call on the number returns None and
  binds nothing.
\<close>

theorem MethodCall_arguments_in_order_then_dispatch_witness:
  "MethodCall_Execute (\<lambda>p m vs x. (Inr (case vs of [u, v] \<Rightarrow> v | _ \<Rightarrow> NoneHandle), x))
       (ValueStatement_Execute 0) ''second''
       [Assignment_Execute ''t'' (ValueStatement_Execute 1), VariableValue_Execute ''t'' []]
       Map.empty
       \<lparr>output_stream = [], heap = [ClassInstance (Class ''A'' [(''second'', [''u'', ''v''])] None) Map.empty, Number 3]\<rparr>
     = (Inr (Handle 1), [''t'' \<mapsto> Handle 1],
        \<lparr>output_stream = [], heap = [ClassInstance (Class ''A'' [(''second'', [''u'', ''v''])] None) Map.empty, Number 3]\<rparr>)
   \<and> MethodCall_Execute (\<lambda>p m vs x. (Inr (case vs of [u, v] \<Rightarrow> v | _ \<Rightarrow> NoneHandle), x))
       (ValueStatement_Execute 0) ''second''
       ([Assignment_Execute ''t'' (ValueStatement_Execute 1)] @ VariableValue_Execute ''u'' []
          # [Assignment_Execute ''w'' (ValueStatement_Execute 1)])
       Map.empty
       \<lparr>output_stream = [], heap = [ClassInstance (Class ''A'' [(''second'', [''u'', ''v''])] None) Map.empty, Number 3]\<rparr>
     = (Inl (runtime_error ''Failed to VariableValue::Execute!''), [''t'' \<mapsto> Handle 1],
        \<lparr>output_stream = [], heap = [ClassInstance (Class ''A'' [(''second'', [''u'', ''v''])] None) Map.empty, Number 3]\<rparr>)
   \<and> MethodCall_Execute (\<lambda>p m vs x. (Inr (case vs of [u, v] \<Rightarrow> v | _ \<Rightarrow> NoneHandle), x))
       (ValueStatement_Execute 1) ''second''
       [Assignment_Execute ''t'' (ValueStatement_Execute 1), VariableValue_Execute ''t'' []]
       Map.empty
       \<lparr>output_stream = [], heap = [ClassInstance (Class ''A'' [(''second'', [''u'', ''v''])] None) Map.empty, Number 3]\<rparr>
     = (Inr NoneHandle, Map.empty,
        \<lparr>output_stream = [], heap = [ClassInstance (Class ''A'' [(''second'', [''u'', ''v''])] None) Map.empty, Number 3]\<rparr>)"
  using MethodCall_arguments_in_order_then_dispatch
    [of "ValueStatement_Execute 0" Map.empty
        "\<lparr>output_stream = [], heap = [ClassInstance (Class ''A'' [(''second'', [''u'', ''v''])] None) Map.empty, Number 3]\<rparr>"
        "Handle 0" Map.empty
        "\<lparr>output_stream = [], heap = [ClassInstance (Class ''A'' [(''second'', [''u'', ''v''])] None) Map.empty, Number 3]\<rparr>"
        0
        "[Assignment_Execute ''t'' (ValueStatement_Execute 1), VariableValue_Execute ''t'' []]"
        "[Handle 1, Handle 1]" "[''t'' \<mapsto> Handle 1]"
        "\<lparr>output_stream = [], heap = [ClassInstance (Class ''A'' [(''second'', [''u'', ''v''])] None) Map.empty, Number 3]\<rparr>"
        "\<lambda>p m vs x. (Inr (case vs of [u, v] \<Rightarrow> v | _ \<Rightarrow> NoneHandle), x)" "''second''"
        "Inr (Handle 1)"
        "\<lparr>output_stream = [], heap = [ClassInstance (Class ''A'' [(''second'', [''u'', ''v''])] None) Map.empty, Number 3]\<rparr>"
        "VariableValue_Execute ''u'' []" "runtime_error ''Failed to VariableValue::Execute!''"
        "[''t'' \<mapsto> Handle 1]"
        "\<lparr>output_stream = [], heap = [ClassInstance (Class ''A'' [(''second'', [''u'', ''v''])] None) Map.empty, Number 3]\<rparr>"
        "[]"]
    MethodCall_arguments_in_order_then_dispatch
    [of "ValueStatement_Execute 0" Map.empty
        "\<lparr>output_stream = [], heap = [ClassInstance (Class ''A'' [(''second'', [''u'', ''v''])] None) Map.empty, Number 3]\<rparr>"
        "Handle 0" Map.empty
        "\<lparr>output_stream = [], heap = [ClassInstance (Class ''A'' [(''second'', [''u'', ''v''])] None) Map.empty, Number 3]\<rparr>"
        0
        "[Assignment_Execute ''t'' (ValueStatement_Execute 1)]"
        "[Handle 1]" "[''t'' \<mapsto> Handle 1]"
        "\<lparr>output_stream = [], heap = [ClassInstance (Class ''A'' [(''second'', [''u'', ''v''])] None) Map.empty, Number 3]\<rparr>"
        "\<lambda>p m vs x. (Inr (case vs of [u, v] \<Rightarrow> v | _ \<Rightarrow> NoneHandle), x)" "''second''"
        "Inr NoneHandle"
        "\<lparr>output_stream = [], heap = [ClassInstance (Class ''A'' [(''second'', [''u'', ''v''])] None) Map.empty, Number 3]\<rparr>"
        "VariableValue_Execute ''u'' []" "runtime_error ''Failed to VariableValue::Execute!''"
        "[''t'' \<mapsto> Handle 1]"
        "\<lparr>output_stream = [], heap = [ClassInstance (Class ''A'' [(''second'', [''u'', ''v''])] None) Map.empty, Number 3]\<rparr>"
        "[Assignment_Execute ''w'' (ValueStatement_Execute 1)]"]
    MethodCall_arguments_in_order_then_dispatch
    [of "ValueStatement_Execute 1" Map.empty
        "\<lparr>output_stream = [], heap = [ClassInstance (Class ''A'' [(''second'', [''u'', ''v''])] None) Map.empty, Number 3]\<rparr>"
        "Handle 1" Map.empty
        "\<lparr>output_stream = [], heap = [ClassInstance (Class ''A'' [(''second'', [''u'', ''v''])] None) Map.empty, Number 3]\<rparr>"
        0
        "[Assignment_Execute ''t'' (ValueStatement_Execute 1), VariableValue_Execute ''t'' []]"
        "[Handle 1, Handle 1]" "[''t'' \<mapsto> Handle 1]"
        "\<lparr>output_stream = [], heap = [ClassInstance (Class ''A'' [(''second'', [''u'', ''v''])] None) Map.empty, Number 3]\<rparr>"
        "\<lambda>p m vs x. (Inr (case vs of [u, v] \<Rightarrow> v | _ \<Rightarrow> NoneHandle), x)" "''second''"
        "Inr (Handle 1)"
        "\<lparr>output_stream = [], heap = [ClassInstance (Class ''A'' [(''second'', [''u'', ''v''])] None) Map.empty, Number 3]\<rparr>"
        "VariableValue_Execute ''u'' []" "runtime_error ''Failed to VariableValue::Execute!''"
        "[''t'' \<mapsto> Handle 1]"
        "\<lparr>output_stream = [], heap = [ClassInstance (Class ''A'' [(''second'', [''u'', ''v''])] None) Map.empty, Number 3]\<rparr>"
        "[]"]
  by (simp add: ValueStatement_Execute_def TryAs_ClassInstance_def Get_def
      Assignment_Execute_def VariableValue_Execute_def)

subsection \<open>Print\<close>

lemma put_Nil [simp]: "put [] x = x"
  by (simp add: put_def)

lemma put_put: "put s (put t x) = put (t @ s) x"
  by (simp add: put_def)

lemma Print_loop_items:
  "Print_loop pr is_first args closure ctx =
     (case Compound_Execute (map2 (Print_item pr) (separators is_first args) args) closure ctx of
        (Inl e, closure', context') \<Rightarrow> (Inl e, closure', context')
      | (Inr v, closure', context') \<Rightarrow> (Inr NoneHandle, closure', put [CHR 0x0A] context'))"
proof (induction args arbitrary: is_first closure ctx)
  case Nil
  show ?case by simp
next
  case (Cons arg args)
  show ?case
    by (cases is_first)
      (auto simp add: Print_item_def Cons.IH split: prod.splits sum.splits ObjectHolder.splits
        option.splits)
qed

lemma literal_Execute: "literal v closure ctx = (Inr v, closure, ctx)"
  by (cases v) (simp_all add: literal_def None_Execute_def ValueStatement_Execute_def)

lemma Print_loop_literals:
  "Print_loop (\<lambda>a x. (None, put (text a) x)) False (map literal vs) closure ctx =
     (Inr NoneHandle, closure,
      put (concat (map (\<lambda>v. '' '' @ value_text text v) vs) @ [CHR 0x0A]) ctx)"
proof (induction vs arbitrary: ctx)
  case Nil
  show ?case by simp
next
  case (Cons v vs)
  have "literal v closure (put '' '' ctx) = (Inr v, closure, put '' '' ctx)"
    by (rule literal_Execute)
  then show ?case
    by (cases v) (simp_all add: value_text_def Cons.IH put_put)
qed

lemma spaced_Cons: "spaced (s # ss) = s @ concat (map (\<lambda>t. '' '' @ t) ss)"
  by (induction ss arbitrary: s) simp_all

text \<open>
  C8, as the code has it. \<^verbatim>\<open>Print\<close> streams: it is the sequence of one step per argument,
  from left to right, where a step writes the separator (nothing before the first
  argument, one space before the others), then evaluates its argument, then prints the
  value at once, None as the text \<^verbatim>\<open>None\<close>; a newline ends the line. So an argument is
  evaluated when the texts of the arguments before it are in the sink. For arguments
  that are literals, under a printer that writes \<open>text a\<close> for the object at \<open>a\<close>, what is
  written is the texts separated by single spaces, and the newline.
\<close>

theorem Print_streams_each_argument:
  "Print_Execute print_object args closure context = Print_items print_object args closure context
   \<and> Print_Execute (\<lambda>a x. (None, put (text a) x)) (map literal vs) closure context =
       (Inr NoneHandle, closure, put (spaced (map (value_text text) vs) @ [CHR 0x0A]) context)"
proof
  show "Print_Execute print_object args closure context
          = Print_items print_object args closure context"
    by (simp add: Print_Execute_def Print_items_def Print_loop_items)
next
  show "Print_Execute (\<lambda>a x. (None, put (text a) x)) (map literal vs) closure context =
          (Inr NoneHandle, closure, put (spaced (map (value_text text) vs) @ [CHR 0x0A]) context)"
  proof (cases vs)
    case Nil
    then show ?thesis by (simp add: Print_Execute_def)
  next
    case (Cons v ws)
    have "literal v closure context = (Inr v, closure, context)"
      by (rule literal_Execute)
    then show ?thesis using Cons
      by (cases v)
        (simp_all add: Print_Execute_def Print_loop_literals value_text_def put_put
          spaced_Cons comp_def)
  qed
qed

text \<open>\<^verbatim>\<open>print None, y\<close> with \<^verbatim>\<open>y\<close> unknown, and \<^verbatim>\<open>print None, 7, 12\<close> for literals at the
  addresses 7 and 12 under a printer that writes the address in angle brackets.\<close>

theorem Print_streams_each_argument_witness:
  "Print_Execute (Object_Print (\<lambda>a x. (None, x))) [None_Execute, VariableValue_Execute ''y'' []]
       Map.empty \<lparr>output_stream = [], heap = []\<rparr>
     = Print_items (Object_Print (\<lambda>a x. (None, x))) [None_Execute, VariableValue_Execute ''y'' []]
       Map.empty \<lparr>output_stream = [], heap = []\<rparr>
   \<and> Print_Execute (\<lambda>a x. (None, put (''<'' @ decimal a @ ''>'') x))
       [None_Execute, ValueStatement_Execute 7, ValueStatement_Execute 12]
       Map.empty \<lparr>output_stream = ''out:'', heap = []\<rparr>
     = (Inr NoneHandle, Map.empty,
        \<lparr>output_stream = ''out:None <7> <12>'' @ [CHR 0x0A], heap = []\<rparr>)"
  using Print_streams_each_argument
    [of "Object_Print (\<lambda>a x. (None, x))" "[None_Execute, VariableValue_Execute ''y'' []]"
        Map.empty "\<lparr>output_stream = [], heap = []\<rparr>" "\<lambda>a. []" "[]"]
    Print_streams_each_argument
    [of "\<lambda>a x. (None, put (''<'' @ decimal a @ ''>'') x)" "[]"
        Map.empty "\<lparr>output_stream = ''out:'', heap = []\<rparr>" "\<lambda>a. ''<'' @ decimal a @ ''>''"
        "[NoneHandle, Handle 7, Handle 12]"]
  by (simp add: literal_def value_text_def put_def)

text \<open>
  C8, as the claim states it, fails. In \<^verbatim>\<open>print None, y\<close> with \<^verbatim>\<open>y\<close> unknown the second
  argument raises when it is evaluated. By then the code has written the text of the
  first argument and the separator; had every argument been evaluated before any
  character is written, the sink would be empty.
\<close>

theorem Print_writes_before_next_argument_counterexample:
  "Print_Execute (Object_Print (\<lambda>a x. (None, x))) [None_Execute, VariableValue_Execute ''y'' []]
       Map.empty \<lparr>output_stream = [], heap = []\<rparr>
     = (Inl (runtime_error ''Failed to VariableValue::Execute!''), Map.empty,
        \<lparr>output_stream = ''None '', heap = []\<rparr>)
   \<and> Print_arguments_first (Object_Print (\<lambda>a x. (None, x)))
       [None_Execute, VariableValue_Execute ''y'' []]
       Map.empty \<lparr>output_stream = [], heap = []\<rparr>
     = (Inl (runtime_error ''Failed to VariableValue::Execute!''), Map.empty,
        \<lparr>output_stream = [], heap = []\<rparr>)"
  by (simp add: Print_Execute_def Print_arguments_first_def None_Execute_def
      VariableValue_Execute_def put_def)

subsection \<open>Div of Mult\<close>

text \<open>
  C9, as the code has it. For the literals \<open>n\<close> and \<open>m\<close> with \<open>m\<close> not zero, when the product
  of \<open>n\<close> and \<open>m\<close> is an \<^verbatim>\<open>int\<close> (it does not overflow), \<^verbatim>\<open>Div(Mult(n, m), m)\<close> is a newly
  owned Number equal to \<open>n\<close>.
\<close>

theorem Div_Mult_cancels_without_overflow:
  assumes "Get (heap context) (Handle an) = Some (Number n)"
    and "Get (heap context) (Handle am) = Some (Number m)"
    and "m \<noteq> 0"
    and "- (2 ^ 31) \<le> sint n * sint m" and "sint n * sint m < 2 ^ 31"
  shows "Div_Execute (Mult_Execute (ValueStatement_Execute an) (ValueStatement_Execute am))
           (ValueStatement_Execute am) closure context
         = (Inr (Handle (Suc (length (heap context)))), closure,
            context\<lparr>heap := heap context @ [Number (int_mult n m), Number n]\<rparr>)
       \<and> TryAs_Number (heap context @ [Number (int_mult n m), Number n])
            (Handle (Suc (length (heap context)))) = Some n"
proof -
  have an: "an < length (heap context)" "heap context ! an = Number n"
    using assms(1) by (simp_all add: Get_def split: if_splits)
  have am: "am < length (heap context)" "heap context ! am = Number m"
    using assms(2) by (simp_all add: Get_def split: if_splits)
  have q: "int_div (int_mult n m) m = Some n"
    using assms(3-5) by (rule int_div_mult)
  have mult: "Mult_Execute (ValueStatement_Execute an) (ValueStatement_Execute am) closure context
      = (Inr (Handle (length (heap context))), closure,
         context\<lparr>heap := heap context @ [Number (int_mult n m)]\<rparr>)"
    using an am
    by (simp add: Mult_Execute_def ValueStatement_Execute_def TryAs_Number_def Get_def Own_def)
  show ?thesis
    using am assms(3) q
    by (simp add: Div_Execute_def mult ValueStatement_Execute_def TryAs_Number_def Get_def
        Own_def nth_append)
qed

text \<open>The literals \<open>-6\<close> and \<open>7\<close>: the product \<open>-42\<close> and then the quotient \<open>-6\<close> are
  allocated after them.\<close>

theorem Div_Mult_cancels_without_overflow_witness:
  "Div_Execute (Mult_Execute (ValueStatement_Execute 0) (ValueStatement_Execute 1))
       (ValueStatement_Execute 1) Map.empty
       \<lparr>output_stream = [], heap = [Number (- 6), Number 7]\<rparr>
     = (Inr (Handle 3), Map.empty,
        \<lparr>output_stream = [], heap = [Number (- 6), Number 7, Number (- 42), Number (- 6)]\<rparr>)"
  using Div_Mult_cancels_without_overflow
    [of "\<lparr>output_stream = [], heap = [Number (- 6), Number 7]\<rparr>" 0 "- 6" 1 7 Map.empty]
  by (simp add: Get_def int_mult_def)

text \<open>
  C9, as the claim states it, fails when the product overflows: for \<open>n = 2^30\<close> and
  \<open>m = 4\<close> the product wraps around to 0 and the quotient is 0.
\<close>

theorem Div_Mult_overflow_counterexample:
  "Div_Execute (Mult_Execute (ValueStatement_Execute 0) (ValueStatement_Execute 1))
       (ValueStatement_Execute 1) Map.empty
       \<lparr>output_stream = [], heap = [Number 1073741824, Number 4]\<rparr>
     = (Inr (Handle 3), Map.empty,
        \<lparr>output_stream = [], heap = [Number 1073741824, Number 4, Number 0, Number 0]\<rparr>)
   \<and> (0 :: 32 word) \<noteq> 1073741824"
  by (simp add: Div_Execute_def Mult_Execute_def ValueStatement_Execute_def TryAs_Number_def
      Get_def Own_def int_mult_def int_div_def)

end
